theory Spec2Isabelle
  imports Main "HOL-Library.AList"
begin

section \<open>Python values of messaging.py\<close>

text \<open>
  The script builds nested \<^verbatim>\<open>dict\<close> literals whose keys are strings and whose leaves are
  strings, the integer badge count and the target token (a \<^verbatim>\<open>str\<close>, or \<^verbatim>\<open>None\<close> when
  \<^verbatim>\<open>--token\<close> is absent). A \<^verbatim>\<open>dict\<close> keeps its keys in insertion order, which is the
  order \<^verbatim>\<open>json.dumps\<close> writes them in, so a dictionary is an association list.
\<close>

datatype json =
    JNone
  | JInt int
  | JStr string
  | JDict "(string \<times> json) list"

text \<open>
  The exceptions that can leave a function of the script: \<^verbatim>\<open>KeyError\<close> and \<^verbatim>\<open>TypeError\<close>
  from the script's own subscripting and string concatenation, and whatever a call into
  \<^verbatim>\<open>google.auth\<close> or \<^verbatim>\<open>requests\<close> raises, carried by name.
\<close>

datatype exn =
    KeyError string
  | TypeError
  | External string

text \<open>\<^verbatim>\<open>d[k]\<close>: the value stored under \<^verbatim>\<open>k\<close>; \<^verbatim>\<open>KeyError\<close> when a dict has no such key,
  \<^verbatim>\<open>TypeError\<close> when the subscripted value does not take a string key.\<close>

fun getitem :: "json \<Rightarrow> string \<Rightarrow> exn + json" where
  "getitem (JDict kvs) k = (case map_of kvs k of None \<Rightarrow> Inl (KeyError k) | Some v \<Rightarrow> Inr v)"
| "getitem _ k = Inl TypeError"

text \<open>\<^verbatim>\<open>d[k] = v\<close>: an existing key keeps its place and takes the new value, a new key goes
  to the end; anything but a dict refuses the assignment.\<close>

fun setitem :: "json \<Rightarrow> string \<Rightarrow> json \<Rightarrow> exn + json" where
  "setitem (JDict kvs) k v = Inr (JDict (AList.update k v kvs))"
| "setitem _ k v = Inl TypeError"

text \<open>\<^verbatim>\<open>d[k1][k2] = v\<close>: the inner dict is looked up, then assigned into. The inner object
  is the one the outer dict holds, so the outer dict sees the assignment: the changed inner
  dict is stored back under \<^verbatim>\<open>k1\<close>, in its old place.\<close>

definition setitem2 :: "json \<Rightarrow> string \<Rightarrow> string \<Rightarrow> json \<Rightarrow> exn + json" where
  "setitem2 d k1 k2 v =
     (case getitem d k1 of
        Inl e \<Rightarrow> Inl e
      | Inr inner \<Rightarrow>
          (case setitem inner k2 v of
             Inl e \<Rightarrow> Inl e
           | Inr inner' \<Rightarrow> setitem d k1 inner'))"

section \<open>The message builders\<close>

definition build_common_message :: "json \<Rightarrow> bool \<Rightarrow> json" where
  "build_common_message token fcmv1 =
     (let notification = JDict
            [(''title'', JStr ''FCM Notification''),
             (''body'', JStr ''Notification from FCM'')]
      in if fcmv1 then
           JDict [(''message'', JDict [(''token'', token), (''notification'', notification)])]
         else
           JDict [(''to'', token), (''data'', notification)])"

definition build_override_message :: "json \<Rightarrow> bool \<Rightarrow> exn + json" where
  "build_override_message token use_fcmv1 =
     (let fcm_message = build_common_message token use_fcmv1;
          apns_override = JDict
            [(''payload'', JDict [(''aps'', JDict [(''badge'', JInt 1)])]),
             (''headers'', JDict [(''apns-priority'', JStr ''10'')])];
          android_override = JDict
            [(''notification'', JDict [(''click_action'', JStr ''android.intent.action.MAIN'')])]
      in case setitem2 fcm_message ''message'' ''android'' android_override of
           Inl e \<Rightarrow> Inl e
         | Inr fcm_message1 \<Rightarrow>
             (case setitem2 fcm_message1 ''message'' ''apns'' apns_override of
                Inl e \<Rightarrow> Inl e
              | Inr fcm_message2 \<Rightarrow> Inr fcm_message2))"

section \<open>The world outside the script\<close>

text \<open>
  What the script does beyond computing values: it writes to standard output, calls
  \<^verbatim>\<open>google.auth\<close> and \<^verbatim>\<open>requests\<close>, and reassigns the module-level variable
  \<^verbatim>\<open>FCM_URL\<close>. The calls and the prints are recorded in one trace, in program order.
\<close>

record response =
  status_code :: int
  resp_text :: string

datatype credentials = Credentials (cred_token: "string option")

text \<open>\<^verbatim>\<open>print\<close> is given a string everywhere but in \<^verbatim>\<open>print(resp)\<close>, which is given the
  response object itself.\<close>

datatype printed = Str string | Resp response

datatype event =
    Print printed
  | FromServiceAccountFile string "string list"
  | Refresh credentials
  | Post string string "(string \<times> string) list"

text \<open>
  The library functions are parameters of the model: \<^verbatim>\<open>json.dumps(obj, indent=...)\<close>,
  \<^verbatim>\<open>Credentials.from_service_account_file(filename, scopes=...)\<close>,
  \<^verbatim>\<open>credentials.refresh(request)\<close> (the refreshed credentials are its result) and
  \<^verbatim>\<open>requests.post(url, data=..., headers=...)\<close>. The last three may raise. Each answers by
  its arguments alone; a send calls each of them at most once.
\<close>

record env =
  json_dumps :: "json \<Rightarrow> nat option \<Rightarrow> string"
  from_service_account_file :: "string \<Rightarrow> string list \<Rightarrow> exn + credentials"
  refresh :: "credentials \<Rightarrow> exn + credentials"
  requests_post :: "string \<Rightarrow> string \<Rightarrow> (string \<times> string) list \<Rightarrow> exn + response"

record world =
  FCM_URL :: string
  trace :: "event list"

definition PROJECT_ID :: string where
  "PROJECT_ID = ''<YOUR-PROJECT-ID>''"

definition BASE_URL :: string where
  "BASE_URL = ''https://fcm.googleapis.com''"

definition FCM_ENDPOINT :: string where
  "FCM_ENDPOINT = ''v1/projects/'' @ PROJECT_ID @ ''/messages:send''"

definition FCM_LEGACY_URL :: string where
  "FCM_LEGACY_URL = BASE_URL @ ''/fcm/send''"

definition SCOPES :: "string list" where
  "SCOPES = [''https://www.googleapis.com/auth/firebase.messaging'']"

text \<open>The module as loaded: \<^verbatim>\<open>FCM_URL = BASE_URL + '/' + FCM_ENDPOINT\<close>, nothing done yet.\<close>

definition module_loaded :: world where
  "module_loaded = \<lparr>FCM_URL = BASE_URL @ ''/'' @ FCM_ENDPOINT, trace = []\<rparr>"

definition emit :: "event \<Rightarrow> world \<Rightarrow> world" where
  "emit e w = w\<lparr>trace := trace w @ [e]\<rparr>"

definition py_print :: "printed \<Rightarrow> world \<Rightarrow> world" where
  "py_print x w = emit (Print x) w"

text \<open>Truth value of a command-line option: \<^verbatim>\<open>None\<close> (absent) and the empty string are
  false, every other string is true.\<close>

fun truthy :: "string option \<Rightarrow> bool" where
  "truthy None = False"
| "truthy (Some s) = (s \<noteq> [])"

text \<open>\<^verbatim>\<open>"Bearer " + x\<close>: concatenation when \<^verbatim>\<open>x\<close> is a string, \<^verbatim>\<open>TypeError\<close> when it is
  \<^verbatim>\<open>None\<close>.\<close>

fun str_add :: "string \<Rightarrow> string option \<Rightarrow> exn + string" where
  "str_add s (Some t) = Inr (s @ t)"
| "str_add s None = Inl TypeError"

section \<open>Credential resolver and dispatcher\<close>

text \<open>
  \<^verbatim>\<open>_get_access_token\<close> loads the credentials from the fixed file with the messaging scope,
  refreshes them and returns their \<^verbatim>\<open>token\<close> attribute (a string, or \<^verbatim>\<open>None\<close> for
  credentials that hold no token). An exception of either library call leaves the function
  at once. Creating the transport \<^verbatim>\<open>Request()\<close> object has no effect of its own.
\<close>

definition get_access_token :: "env \<Rightarrow> world \<Rightarrow> (exn + string option) \<times> world" where
  "get_access_token env w =
     (let w1 = emit (FromServiceAccountFile ''service-account.json'' SCOPES) w
      in case from_service_account_file env ''service-account.json'' SCOPES of
           Inl e \<Rightarrow> (Inl e, w1)
         | Inr credentials \<Rightarrow>
             (let w2 = emit (Refresh credentials) w1
              in case refresh env credentials of
                   Inl e \<Rightarrow> (Inl e, w2)
                 | Inr credentials' \<Rightarrow> (Inr (cred_token credentials'), w2)))"

text \<open>
  \<^verbatim>\<open>_send_fcm_message\<close> in two parts. The first is its \<^verbatim>\<open>if token: ... else: ...\<close>, which
  computes \<^verbatim>\<open>auth\<close>: with a legacy key (a non-empty string) it is \<^verbatim>\<open>"key=" + token\<close> and
  the global \<^verbatim>\<open>FCM_URL\<close> is assigned the legacy URL; otherwise it is \<^verbatim>\<open>"Bearer "\<close> plus
  the access token, and \<^verbatim>\<open>FCM_URL\<close> is left as it is.
\<close>

definition resolve_auth :: "env \<Rightarrow> string option \<Rightarrow> world \<Rightarrow> (exn + string) \<times> world" where
  "resolve_auth env token w =
     (case token of
        Some k \<Rightarrow>
          if k \<noteq> [] then (Inr (''key='' @ k), w\<lparr>FCM_URL := FCM_LEGACY_URL\<rparr>)
          else (case get_access_token env w of
                  (Inl e, w1) \<Rightarrow> (Inl e, w1)
                | (Inr t, w1) \<Rightarrow> (str_add ''Bearer '' t, w1))
      | None \<Rightarrow>
          (case get_access_token env w of
             (Inl e, w1) \<Rightarrow> (Inl e, w1)
           | (Inr t, w1) \<Rightarrow> (str_add ''Bearer '' t, w1)))"

text \<open>The second part builds the headers, posts the serialised message to whatever
  \<^verbatim>\<open>FCM_URL\<close> holds now, and prints the outcome by the status code.\<close>

definition send_fcm_message :: "env \<Rightarrow> json \<Rightarrow> string option \<Rightarrow> world \<Rightarrow> (exn + unit) \<times> world" where
  "send_fcm_message env fcm_message token w =
     (case resolve_auth env token w of
        (Inl e, w1) \<Rightarrow> (Inl e, w1)
      | (Inr auth, w1) \<Rightarrow>
          (let headers =
                 [(''Authorization'', auth),
                  (''Content-Type'', ''application/json; UTF-8'')];
               data = json_dumps env fcm_message None;
               w2 = emit (Post (FCM_URL w1) data headers) w1
           in case requests_post env (FCM_URL w1) data headers of
                Inl e \<Rightarrow> (Inl e, w2)
              | Inr resp \<Rightarrow>
                  if status_code resp = 200 then
                    (Inr (),
                     py_print (Str (resp_text resp))
                       (py_print (Str ''Message sent to Firebase for delivery, response:'') w2))
                  else
                    (Inr (),
                     py_print (Str (resp_text resp))
                       (py_print (Resp resp)
                          (py_print (Str ''Unable to send message to Firebase'') w2)))))"

section \<open>The command line\<close>

text \<open>The namespace \<^verbatim>\<open>parse_args\<close> returns: each option is its string, or \<^verbatim>\<open>None\<close> when
  it was not given. \<^verbatim>\<open>main\<close> is modelled from the parsed namespace on.\<close>

record args =
  args_message :: "string option"
  args_use_http :: "string option"
  args_token :: "string option"

fun py_str :: "string option \<Rightarrow> json" where
  "py_str None = JNone"
| "py_str (Some s) = JStr s"

definition usage :: string where
  "usage = ''Invalid command. Please use one of the following commands:\<newline>python messaging.py --message=common-message\<newline>python messaging.py --message=override-message''"

definition main :: "env \<Rightarrow> args \<Rightarrow> world \<Rightarrow> (exn + unit) \<times> world" where
  "main env a w =
     (let use_fcmv1 = \<not> truthy (args_use_http a)
      in if truthy (args_message a) \<and> args_message a = Some ''common-message'' then
           (let common_message = build_common_message (py_str (args_token a)) use_fcmv1;
                w1 = py_print
                       (Str ''FCM request body for message using common notification object:'') w;
                w2 = py_print (Str (json_dumps env common_message (Some 2))) w1
            in send_fcm_message env common_message (args_use_http a) w2)
         else if truthy (args_message a) \<and> args_message a = Some ''override-message'' then
           (case build_override_message (py_str (args_token a)) use_fcmv1 of
              Inl e \<Rightarrow> (Inl e, w)
            | Inr override_message \<Rightarrow>
                (let w1 = py_print (Str ''FCM request body for override message:'') w;
                     w2 = py_print (Str (json_dumps env override_message (Some 2))) w1
                 in send_fcm_message env override_message (args_use_http a) w2))
         else
           (Inr (), py_print (Str usage) w))"

section \<open>Reading a trace\<close>

fun is_print :: "event \<Rightarrow> bool" where
  "is_print (Print x) = True"
| "is_print _ = False"

fun is_post :: "event \<Rightarrow> bool" where
  "is_post (Post u d h) = True"
| "is_post _ = False"

section \<open>The builders on a heap of objects\<close>

text \<open>
  A \<^verbatim>\<open>dict\<close> is an object: a variable or a dict entry holds a reference to it, and
  \<^verbatim>\<open>fcm_message['message']['android'] = ...\<close> changes the object every holder of the
  reference sees. For the question whether the builders touch anything but what they create,
  the builders are modelled a second time, on an explicit heap: a list of dict objects, the
  address of an object being its index. A dict display allocates a new object at the end.
\<close>

datatype val = VNone | VInt int | VStr string | VRef nat

type_synonym heap = "(string \<times> val) list list"

definition new_dict :: "(string \<times> val) list \<Rightarrow> heap \<Rightarrow> val \<times> heap" where
  "new_dict kvs h = (VRef (length h), h @ [kvs])"

text \<open>Subscripting through a reference. Python has no reference to an object that does not
  exist; the model answers \<^verbatim>\<open>TypeError\<close> for an address outside the heap, as for a value
  that is no dict.\<close>

fun getitem_h :: "heap \<Rightarrow> val \<Rightarrow> string \<Rightarrow> exn + val" where
  "getitem_h h (VRef a) k =
     (if a < length h then
        (case map_of (h ! a) k of None \<Rightarrow> Inl (KeyError k) | Some v \<Rightarrow> Inr v)
      else Inl TypeError)"
| "getitem_h h _ k = Inl TypeError"

fun setitem_h :: "heap \<Rightarrow> val \<Rightarrow> string \<Rightarrow> val \<Rightarrow> exn + heap" where
  "setitem_h h (VRef a) k v =
     (if a < length h then Inr (h[a := AList.update k v (h ! a)]) else Inl TypeError)"
| "setitem_h h _ k v = Inl TypeError"

definition build_common_message_h :: "val \<Rightarrow> bool \<Rightarrow> heap \<Rightarrow> val \<times> heap" where
  "build_common_message_h token fcmv1 h =
     (let (notification, h1) = new_dict
            [(''title'', VStr ''FCM Notification''),
             (''body'', VStr ''Notification from FCM'')] h
      in if fcmv1 then
           (let (message, h2) = new_dict [(''token'', token), (''notification'', notification)] h1
            in new_dict [(''message'', message)] h2)
         else
           new_dict [(''to'', token), (''data'', notification)] h1)"

text \<open>The dict displays of \<^verbatim>\<open>apns_override\<close> and \<^verbatim>\<open>android_override\<close> allocate their inner
  dicts first, in the order written. Each of the two assignments subscripts
  \<^verbatim>\<open>fcm_message\<close> with \<^verbatim>\<open>'message'\<close> again.\<close>

definition build_override_message_h :: "val \<Rightarrow> bool \<Rightarrow> heap \<Rightarrow> (exn + val) \<times> heap" where
  "build_override_message_h token use_fcmv1 h =
     (let (fcm_message, h1) = build_common_message_h token use_fcmv1 h;
          (aps, h2) = new_dict [(''badge'', VInt 1)] h1;
          (payload, h3) = new_dict [(''aps'', aps)] h2;
          (headers, h4) = new_dict [(''apns-priority'', VStr ''10'')] h3;
          (apns_override, h5) = new_dict [(''payload'', payload), (''headers'', headers)] h4;
          (notification, h6) = new_dict [(''click_action'', VStr ''android.intent.action.MAIN'')] h5;
          (android_override, h7) = new_dict [(''notification'', notification)] h6
      in case getitem_h h7 fcm_message ''message'' of
           Inl e \<Rightarrow> (Inl e, h7)
         | Inr m \<Rightarrow>
             (case setitem_h h7 m ''android'' android_override of
                Inl e \<Rightarrow> (Inl e, h7)
              | Inr h8 \<Rightarrow>
                  (case getitem_h h8 fcm_message ''message'' of
                     Inl e \<Rightarrow> (Inl e, h8)
                   | Inr m' \<Rightarrow>
                       (case setitem_h h8 m' ''apns'' apns_override of
                          Inl e \<Rightarrow> (Inl e, h8)
                        | Inr h9 \<Rightarrow> (Inr fcm_message, h9)))))"

text \<open>The JSON value a heap value stands for: references are followed, at most \<open>n\<close> deep
  (a heap may hold a cycle, which stands for no JSON value).\<close>

fun reify :: "nat \<Rightarrow> heap \<Rightarrow> val \<Rightarrow> json option" where
  "reify n h VNone = Some JNone"
| "reify n h (VInt i) = Some (JInt i)"
| "reify n h (VStr s) = Some (JStr s)"
| "reify 0 h (VRef a) = None"
| "reify (Suc n) h (VRef a) =
     (if a < length h then
        map_option JDict (those (map (\<lambda>(k, v). map_option (Pair k) (reify n h v)) (h ! a)))
      else None)"

section \<open>Example runs\<close>

text \<open>
  Stand-ins for the libraries, for the examples below. The encoder only tells whether it was
  asked to indent; the key file loads and the refresh yields the token \<^verbatim>\<open>ya29.token\<close>; the
  legacy endpoint answers 401 and every other URL answers 200.
\<close>

definition env_example :: env where
  "env_example =
     \<lparr>json_dumps = (\<lambda>obj indent. case indent of None \<Rightarrow> ''<compact>'' | Some n \<Rightarrow> ''<indented>''),
      from_service_account_file = (\<lambda>filename scopes. Inr (Credentials None)),
      refresh = (\<lambda>c. Inr (Credentials (Some ''ya29.token''))),
      requests_post = (\<lambda>url data headers.
         if url = ''https://fcm.googleapis.com/fcm/send''
         then Inr \<lparr>status_code = 401, resp_text = ''Unauthorized''\<rparr>
         else Inr \<lparr>status_code = 200, resp_text = ''{}''\<rparr>)\<rparr>"

text \<open>The same, with no \<^verbatim>\<open>service-account.json\<close> on disk; and with a key file that loads
  and a token exchange that fails.\<close>

definition env_no_key_file :: env where
  "env_no_key_file =
     env_example\<lparr>from_service_account_file :=
       (\<lambda>filename scopes. Inl (External ''FileNotFoundError''))\<rparr>"

definition env_refresh_fails :: env where
  "env_refresh_fails =
     env_example\<lparr>refresh := (\<lambda>c. Inl (External ''RefreshError''))\<rparr>"

definition args_example :: "string option \<Rightarrow> string option \<Rightarrow> args" where
  "args_example m k = \<lparr>args_message = m, args_use_http = k, args_token = Some ''device-1''\<rparr>"

section \<open>Helper facts about the trace\<close>

lemma trace_emit [simp]: "trace (emit e w) = trace w @ [e]"
  by (simp add: emit_def)

lemma FCM_URL_emit [simp]: "FCM_URL (emit e w) = FCM_URL w"
  by (simp add: emit_def)

lemma trace_py_print [simp]: "trace (py_print x w) = trace w @ [Print x]"
  by (simp add: py_print_def)

lemma FCM_URL_py_print [simp]: "FCM_URL (py_print x w) = FCM_URL w"
  by (simp add: py_print_def)

lemma get_access_token_trace:
  "\<exists>evs. trace (snd (get_access_token env w)) =
      trace w @ FromServiceAccountFile ''service-account.json'' SCOPES # evs
    \<and> list_all (\<lambda>e. \<not> is_post e \<and> \<not> is_print e) evs"
  by (simp add: get_access_token_def Let_def split: sum.splits)

lemma get_access_token_FCM_URL:
  "FCM_URL (snd (get_access_token env w)) = FCM_URL w"
  by (simp add: get_access_token_def Let_def split: sum.splits)

lemma resolve_auth_key:
  "K \<noteq> [] \<Longrightarrow> resolve_auth env (Some K) w = (Inr (''key='' @ K), w\<lparr>FCM_URL := FCM_LEGACY_URL\<rparr>)"
  by (simp add: resolve_auth_def)

lemma resolve_auth_falsy:
  "\<not> truthy token \<Longrightarrow> resolve_auth env token w =
     (case get_access_token env w of
        (Inl e, w1) \<Rightarrow> (Inl e, w1)
      | (Inr t, w1) \<Rightarrow> (str_add ''Bearer '' t, w1))"
  by (cases token) (simp_all add: resolve_auth_def)

lemma resolve_auth_trace:
  "\<exists>pre. trace (snd (resolve_auth env token w)) = trace w @ pre
     \<and> list_all (\<lambda>e. \<not> is_post e \<and> \<not> is_print e) pre"
  by (simp add: resolve_auth_def get_access_token_def Let_def
           split: option.splits sum.splits prod.splits)


lemma main_common:
  "args_message a = Some ''common-message'' \<Longrightarrow>
   main env a w =
     send_fcm_message env
       (build_common_message (py_str (args_token a)) (\<not> truthy (args_use_http a)))
       (args_use_http a)
       (py_print (Str (json_dumps env
            (build_common_message (py_str (args_token a)) (\<not> truthy (args_use_http a)))
            (Some 2)))
          (py_print (Str ''FCM request body for message using common notification object:'') w))"
  by (simp add: main_def Let_def)

lemma main_override:
  "args_message a = Some ''override-message'' \<Longrightarrow>
   build_override_message (py_str (args_token a)) (\<not> truthy (args_use_http a)) = Inr body \<Longrightarrow>
   main env a w =
     send_fcm_message env body (args_use_http a)
       (py_print (Str (json_dumps env body (Some 2)))
          (py_print (Str ''FCM request body for override message:'') w))"
  by (simp add: main_def Let_def)

lemma build_override_message_legacy:
  "build_override_message T False = Inl (KeyError ''message'')"
  by (simp add: build_override_message_def build_common_message_def setitem2_def)

lemma override_v1_succeeds:
  "\<exists>body. build_override_message T True = Inr body"
  by (simp add: build_override_message_def build_common_message_def setitem2_def)

lemma override_message_v1_value:
  "build_override_message j True =
     Inr (JDict [(''message'', JDict
       [(''token'', j),
        (''notification'', JDict
           [(''title'', JStr ''FCM Notification''),
            (''body'', JStr ''Notification from FCM'')]),
        (''android'', JDict
           [(''notification'', JDict
              [(''click_action'', JStr ''android.intent.action.MAIN'')])]),
        (''apns'', JDict
           [(''payload'', JDict [(''aps'', JDict [(''badge'', JInt 1)])]),
            (''headers'', JDict [(''apns-priority'', JStr ''10'')])])])])"
  by (simp add: build_override_message_def build_common_message_def setitem2_def)

lemmas example_defs =
  env_example_def env_no_key_file_def env_refresh_fails_def args_example_def module_loaded_def
  BASE_URL_def FCM_ENDPOINT_def PROJECT_ID_def FCM_LEGACY_URL_def

lemmas run_defs =
  main_def send_fcm_message_def resolve_auth_def get_access_token_def
  emit_def py_print_def Let_def

section \<open>Shapes of the built messages\<close>

text \<open>
  C1. For every target token \<open>T\<close>, the common builder returns exactly the v1 shape
  \<^verbatim>\<open>{message: {token: T, notification: {title, body}}}\<close> when the flag is true and exactly
  the legacy shape \<^verbatim>\<open>{to: T, data: {title, body}}\<close> when it is false, with the fixed title
  "FCM Notification" and body "Notification from FCM". The results are given as whole
  association lists, so neither has any other key.
\<close>

theorem build_common_message_shapes:
  "build_common_message T True =
     JDict [(''message'', JDict
       [(''token'', T),
        (''notification'', JDict
           [(''title'', JStr ''FCM Notification''),
            (''body'', JStr ''Notification from FCM'')])])]
   \<and> build_common_message T False =
     JDict [(''to'', T),
            (''data'', JDict
               [(''title'', JStr ''FCM Notification''),
                (''body'', JStr ''Notification from FCM'')])]"
  by (simp add: build_common_message_def)

text \<open>
  C2. For every target token \<open>T\<close>, the override builder called with the v1 flag returns the
  v1 common shape with exactly two more entries under \<^verbatim>\<open>message\<close>, after the entries
  \<^verbatim>\<open>token\<close> and \<^verbatim>\<open>notification\<close> of the common shape, which are unchanged:
  \<^verbatim>\<open>android = {notification: {click_action: "android.intent.action.MAIN"}}\<close> and
  \<^verbatim>\<open>apns = {payload: {aps: {badge: 1}}, headers: {"apns-priority": "10"}}\<close>.
\<close>

theorem build_override_message_v1:
  "\<exists>kvs. build_common_message T True = JDict [(''message'', JDict kvs)]
     \<and> map fst kvs = [''token'', ''notification'']
     \<and> build_override_message T True =
         Inr (JDict [(''message'', JDict (kvs @
           [(''android'', JDict
               [(''notification'', JDict [(''click_action'', JStr ''android.intent.action.MAIN'')])]),
            (''apns'', JDict
               [(''payload'', JDict [(''aps'', JDict [(''badge'', JInt 1)])]),
                (''headers'', JDict [(''apns-priority'', JStr ''10'')])])]))])"
  by (simp add: build_override_message_def build_common_message_def setitem2_def)

text \<open>
  C5. For every target token \<open>T\<close>, the override builder called with the flag false raises
  \<^verbatim>\<open>KeyError('message')\<close>: the legacy shape has no \<^verbatim>\<open>message\<close> key. Hence
  \<^verbatim>\<open>--message=override-message\<close> with a non-empty \<^verbatim>\<open>--use-http\<close> ends \<^verbatim>\<open>main\<close> with that
  error and leaves the world as it was: nothing is printed, no request is made.
\<close>

theorem override_message_legacy_raises:
  assumes "args_message a = Some ''override-message''"
      and "truthy (args_use_http a)"
  shows "build_override_message T False = Inl (KeyError ''message'')
       \<and> main env a w = (Inl (KeyError ''message''), w)"
  using assms by (simp add: main_def build_override_message_legacy)

theorem override_message_legacy_raises_witness:
  "args_message (args_example (Some ''override-message'') (Some ''ABC123'')) =
     Some ''override-message''
   \<and> truthy (args_use_http (args_example (Some ''override-message'') (Some ''ABC123'')))
   \<and> build_override_message (JStr ''device-1'') False = Inl (KeyError ''message'')
   \<and> main env_example (args_example (Some ''override-message'') (Some ''ABC123'')) module_loaded =
       (Inl (KeyError ''message''), module_loaded)"
  using override_message_legacy_raises
          [of "args_example (Some ''override-message'') (Some ''ABC123'')" "JStr ''device-1''"
              env_example module_loaded]
  by (simp add: args_example_def)

section \<open>The dispatcher\<close>

text \<open>
  C3. For every message body \<open>M\<close> and every non-empty legacy key \<open>K\<close>, the first thing
  \<^verbatim>\<open>_send_fcm_message(M, K)\<close> does to the outside world is the POST to
  \<^verbatim>\<open>https://fcm.googleapis.com/fcm/send\<close> with the header \<^verbatim>\<open>Authorization: key=K\<close>; all it
  does afterwards is print. So the credential resolver is not invoked: no service-account
  file is read and no token is refreshed. This holds whatever \<^verbatim>\<open>FCM_URL\<close> was before.
\<close>

theorem send_fcm_message_legacy_key:
  assumes "K \<noteq> []"
  shows "\<exists>evs. trace (snd (send_fcm_message env M (Some K) w)) =
           trace w @ Post ''https://fcm.googleapis.com/fcm/send'' (json_dumps env M None)
              [(''Authorization'', ''key='' @ K),
               (''Content-Type'', ''application/json; UTF-8'')] # evs
         \<and> list_all is_print evs"
  using assms
  by (simp add: send_fcm_message_def resolve_auth_key Let_def FCM_LEGACY_URL_def BASE_URL_def
           split: sum.splits)

theorem send_fcm_message_legacy_key_witness:
  "''ABC123'' \<noteq> []
   \<and> trace (snd (send_fcm_message env_example (build_common_message (JStr ''device-1'') False)
        (Some ''ABC123'') module_loaded)) =
      [Post ''https://fcm.googleapis.com/fcm/send'' ''<compact>''
         [(''Authorization'', ''key=ABC123''),
          (''Content-Type'', ''application/json; UTF-8'')],
       Print (Str ''Unable to send message to Firebase''),
       Print (Resp \<lparr>status_code = 401, resp_text = ''Unauthorized''\<rparr>),
       Print (Str ''Unauthorized'')]"
  using send_fcm_message_legacy_key
          [of "''ABC123''" env_example "build_common_message (JStr ''device-1'') False"
              module_loaded]
  by (simp add: example_defs run_defs)

text \<open>
  C4. The dispatcher posts to whatever the module-level \<^verbatim>\<open>FCM_URL\<close> holds, and its branch for
  a call without a legacy key leaves that variable alone. The program calls the dispatcher
  from \<^verbatim>\<open>main\<close> only, once per process, after nothing but prints: so every call of the
  dispatcher that the program makes finds \<^verbatim>\<open>FCM_URL\<close> as the module was loaded (the second
  part of the theorem, for every recognised \<^verbatim>\<open>--message\<close> without a legacy key). In such a
  world, for every message body \<open>M\<close> and every absent or empty \<^verbatim>\<open>token\<close>,
  \<^verbatim>\<open>_send_fcm_message(M, token)\<close> first invokes the credential resolver (it reads the
  service-account file) and then, \<open>tok\<close> being the token the resolver returns, issues its
  POST to \<^verbatim>\<open>https://fcm.googleapis.com/v1/projects/<YOUR-PROJECT-ID>/messages:send\<close> with the
  header \<^verbatim>\<open>Authorization: Bearer tok\<close>; after the POST it only prints.
\<close>

theorem send_fcm_message_bearer:
  assumes "\<not> truthy token"
      and "FCM_URL w = FCM_URL module_loaded"
      and "get_access_token env w = (Inr (Some tok), w1)"
  shows "(\<exists>pre evs.
           trace w1 = trace w @ FromServiceAccountFile ''service-account.json'' SCOPES # pre
         \<and> list_all (\<lambda>e. \<not> is_post e \<and> \<not> is_print e) pre
         \<and> trace (snd (send_fcm_message env M token w)) =
             trace w1 @ Post
               ''https://fcm.googleapis.com/v1/projects/<YOUR-PROJECT-ID>/messages:send''
               (json_dumps env M None)
               [(''Authorization'', ''Bearer '' @ tok),
                (''Content-Type'', ''application/json; UTF-8'')] # evs
         \<and> list_all is_print evs)
       \<and> (\<forall>a. (args_message a = Some ''common-message''
                \<or> args_message a = Some ''override-message'')
               \<and> args_use_http a = token \<longrightarrow>
              (\<exists>body w2. main env a module_loaded = send_fcm_message env body token w2
                        \<and> FCM_URL w2 = FCM_URL module_loaded))"
proof (intro conjI allI impI)
  have url: "FCM_URL w1 =
      ''https://fcm.googleapis.com/v1/projects/<YOUR-PROJECT-ID>/messages:send''"
    using get_access_token_FCM_URL [of env w] assms(2,3)
    by (simp add: module_loaded_def BASE_URL_def FCM_ENDPOINT_def PROJECT_ID_def)
  obtain pre where pre:
      "trace w1 = trace w @ FromServiceAccountFile ''service-account.json'' SCOPES # pre"
      "list_all (\<lambda>e. \<not> is_post e \<and> \<not> is_print e) pre"
    using get_access_token_trace [of env w] assms(3) by auto
  have "\<exists>evs. trace (snd (send_fcm_message env M token w)) =
             trace w1 @ Post
               ''https://fcm.googleapis.com/v1/projects/<YOUR-PROJECT-ID>/messages:send''
               (json_dumps env M None)
               [(''Authorization'', ''Bearer '' @ tok),
                (''Content-Type'', ''application/json; UTF-8'')] # evs
         \<and> list_all is_print evs"
    using assms(1,3) url
    by (simp add: send_fcm_message_def resolve_auth_falsy Let_def split: sum.splits)
  with pre show "\<exists>pre evs.
           trace w1 = trace w @ FromServiceAccountFile ''service-account.json'' SCOPES # pre
         \<and> list_all (\<lambda>e. \<not> is_post e \<and> \<not> is_print e) pre
         \<and> trace (snd (send_fcm_message env M token w)) =
             trace w1 @ Post
               ''https://fcm.googleapis.com/v1/projects/<YOUR-PROJECT-ID>/messages:send''
               (json_dumps env M None)
               [(''Authorization'', ''Bearer '' @ tok),
                (''Content-Type'', ''application/json; UTF-8'')] # evs
         \<and> list_all is_print evs"
    by blast
next
  fix a :: args
  assume a: "(args_message a = Some ''common-message''
                \<or> args_message a = Some ''override-message'')
               \<and> args_use_http a = token"
  show "\<exists>body w2. main env a module_loaded = send_fcm_message env body token w2
                        \<and> FCM_URL w2 = FCM_URL module_loaded"
  proof (cases "args_message a = Some ''common-message''")
    case True
    let ?M = "build_common_message (py_str (args_token a)) (\<not> truthy (args_use_http a))"
    let ?w2 = "py_print (Str (json_dumps env ?M (Some 2)))
          (py_print (Str ''FCM request body for message using common notification object:'')
             module_loaded)"
    have "main env a module_loaded = send_fcm_message env ?M token ?w2"
      using main_common [OF True] a by simp
    moreover have "FCM_URL ?w2 = FCM_URL module_loaded" by simp
    ultimately show ?thesis by blast
  next
    case False
    with a have o: "args_message a = Some ''override-message''" by simp
    obtain body where b:
        "build_override_message (py_str (args_token a)) (\<not> truthy (args_use_http a)) = Inr body"
      using override_v1_succeeds assms(1) a by auto
    let ?w2 = "py_print (Str (json_dumps env body (Some 2)))
          (py_print (Str ''FCM request body for override message:'') module_loaded)"
    have "main env a module_loaded = send_fcm_message env body token ?w2"
      using main_override [OF o b] a by simp
    moreover have "FCM_URL ?w2 = FCM_URL module_loaded" by simp
    ultimately show ?thesis by blast
  qed
qed

theorem send_fcm_message_bearer_witness:
  "\<not> truthy (Some [])
   \<and> FCM_URL module_loaded = FCM_URL module_loaded
   \<and> get_access_token env_example module_loaded =
       (Inr (Some ''ya29.token''),
        module_loaded\<lparr>trace :=
          [FromServiceAccountFile ''service-account.json''
             [''https://www.googleapis.com/auth/firebase.messaging''],
           Refresh (Credentials None)]\<rparr>)
   \<and> trace (snd (send_fcm_message env_example (build_common_message (JStr ''device-1'') True)
        (Some []) module_loaded)) =
      [FromServiceAccountFile ''service-account.json''
         [''https://www.googleapis.com/auth/firebase.messaging''],
       Refresh (Credentials None),
       Post ''https://fcm.googleapis.com/v1/projects/<YOUR-PROJECT-ID>/messages:send''
         ''<compact>''
         [(''Authorization'', ''Bearer ya29.token''),
          (''Content-Type'', ''application/json; UTF-8'')],
       Print (Str ''Message sent to Firebase for delivery, response:''),
       Print (Str ''{}'')]
   \<and> args_message (args_example (Some ''override-message'') (Some [])) =
       Some ''override-message''
   \<and> args_use_http (args_example (Some ''override-message'') (Some [])) = Some []
   \<and> main env_example (args_example (Some ''override-message'') (Some [])) module_loaded =
       (Inr (),
        \<lparr>FCM_URL = ''https://fcm.googleapis.com/v1/projects/<YOUR-PROJECT-ID>/messages:send'',
         trace =
          [Print (Str ''FCM request body for override message:''),
           Print (Str ''<indented>''),
           FromServiceAccountFile ''service-account.json''
             [''https://www.googleapis.com/auth/firebase.messaging''],
           Refresh (Credentials None),
           Post ''https://fcm.googleapis.com/v1/projects/<YOUR-PROJECT-ID>/messages:send''
             ''<compact>''
             [(''Authorization'', ''Bearer ya29.token''),
              (''Content-Type'', ''application/json; UTF-8'')],
           Print (Str ''Message sent to Firebase for delivery, response:''),
           Print (Str ''{}'')]\<rparr>)"
  using send_fcm_message_bearer
          [of "Some []" module_loaded env_example "''ya29.token''"
              "module_loaded\<lparr>trace :=
                [FromServiceAccountFile ''service-account.json''
                   [''https://www.googleapis.com/auth/firebase.messaging''],
                 Refresh (Credentials None)]\<rparr>"
              "build_common_message (JStr ''device-1'') True"]
  by (simp add: example_defs run_defs SCOPES_def build_override_message_def
        build_common_message_def setitem2_def)

text \<open>
  C6. In either authorization mode, once the \<^verbatim>\<open>Authorization\<close> value \<open>auth\<close> has been
  obtained and the POST returns a response \<open>resp\<close>, \<^verbatim>\<open>_send_fcm_message\<close> returns normally.
  With status 200 it prints the line "Message sent to Firebase for delivery, response:" and
  the response text; with any other status it prints "Unable to send message to Firebase",
  the response object and the response text. The POST is the only one in the events of the
  call (no retry): nothing before it is a POST or a print, and after it come the prints only.
\<close>

theorem send_fcm_message_outcome:
  assumes "resolve_auth env token w = (Inr auth, w1)"
      and "requests_post env (FCM_URL w1) (json_dumps env M None)
             [(''Authorization'', auth), (''Content-Type'', ''application/json; UTF-8'')]
           = Inr resp"
  shows "fst (send_fcm_message env M token w) = Inr ()
       \<and> (\<exists>pre. trace w1 = trace w @ pre
             \<and> list_all (\<lambda>e. \<not> is_post e \<and> \<not> is_print e) pre
             \<and> trace (snd (send_fcm_message env M token w)) =
                 trace w @ pre @
                 Post (FCM_URL w1) (json_dumps env M None)
                   [(''Authorization'', auth),
                    (''Content-Type'', ''application/json; UTF-8'')] #
                 (if status_code resp = 200 then
                    [Print (Str ''Message sent to Firebase for delivery, response:''),
                     Print (Str (resp_text resp))]
                  else
                    [Print (Str ''Unable to send message to Firebase''),
                     Print (Resp resp),
                     Print (Str (resp_text resp))]))"
proof -
  obtain pre where pre: "trace w1 = trace w @ pre"
      "list_all (\<lambda>e. \<not> is_post e \<and> \<not> is_print e) pre"
    using resolve_auth_trace [of env token w] assms(1) by auto
  show ?thesis
    using assms pre by (simp add: send_fcm_message_def Let_def)
qed

theorem send_fcm_message_outcome_witness:
  "resolve_auth env_example (Some ''ABC123'') module_loaded =
     (Inr ''key=ABC123'', module_loaded\<lparr>FCM_URL := ''https://fcm.googleapis.com/fcm/send''\<rparr>)
   \<and> requests_post env_example ''https://fcm.googleapis.com/fcm/send'' ''<compact>''
        [(''Authorization'', ''key=ABC123''), (''Content-Type'', ''application/json; UTF-8'')] =
      Inr \<lparr>status_code = 401, resp_text = ''Unauthorized''\<rparr>
   \<and> send_fcm_message env_example (build_common_message (JStr ''device-1'') False)
        (Some ''ABC123'') module_loaded =
      (Inr (),
       \<lparr>FCM_URL = ''https://fcm.googleapis.com/fcm/send'',
        trace =
          [Post ''https://fcm.googleapis.com/fcm/send'' ''<compact>''
             [(''Authorization'', ''key=ABC123''),
              (''Content-Type'', ''application/json; UTF-8'')],
           Print (Str ''Unable to send message to Firebase''),
           Print (Resp \<lparr>status_code = 401, resp_text = ''Unauthorized''\<rparr>),
           Print (Str ''Unauthorized'')]\<rparr>)
   \<and> send_fcm_message env_example (build_common_message (JStr ''device-1'') True)
        None module_loaded =
      (Inr (),
       \<lparr>FCM_URL = ''https://fcm.googleapis.com/v1/projects/<YOUR-PROJECT-ID>/messages:send'',
        trace =
          [FromServiceAccountFile ''service-account.json''
             [''https://www.googleapis.com/auth/firebase.messaging''],
           Refresh (Credentials None),
           Post ''https://fcm.googleapis.com/v1/projects/<YOUR-PROJECT-ID>/messages:send''
             ''<compact>''
             [(''Authorization'', ''Bearer ya29.token''),
              (''Content-Type'', ''application/json; UTF-8'')],
           Print (Str ''Message sent to Firebase for delivery, response:''),
           Print (Str ''{}'')]\<rparr>)"
  using send_fcm_message_outcome
          [of env_example "Some ''ABC123''" module_loaded "''key=ABC123''"
              "module_loaded\<lparr>FCM_URL := ''https://fcm.googleapis.com/fcm/send''\<rparr>"
              "build_common_message (JStr ''device-1'') False"
              "\<lparr>status_code = 401, resp_text = ''Unauthorized''\<rparr>"]
        send_fcm_message_outcome
          [of env_example None module_loaded "''Bearer ya29.token''"
              "module_loaded\<lparr>trace :=
                [FromServiceAccountFile ''service-account.json''
                   [''https://www.googleapis.com/auth/firebase.messaging''],
                 Refresh (Credentials None)]\<rparr>"
              "build_common_message (JStr ''device-1'') True"
              "\<lparr>status_code = 200, resp_text = ''{}''\<rparr>"]
  by (simp add: example_defs run_defs SCOPES_def)

text \<open>
  C7. With no legacy key, when loading the service-account file raises \<open>e\<close>, or the file
  loads and the token refresh raises \<open>e\<close>, the error \<open>e\<close> leaves \<^verbatim>\<open>_get_access_token\<close>,
  leaves \<^verbatim>\<open>_send_fcm_message\<close> and, for a recognised \<^verbatim>\<open>--message\<close>, leaves \<^verbatim>\<open>main\<close>. The
  file is read once and the refresh tried at most once (no retry), and no POST is made.
\<close>

theorem credential_failure_propagates:
  assumes "\<not> truthy token"
      and "from_service_account_file env ''service-account.json'' SCOPES = Inl e
           \<or> (\<exists>c. from_service_account_file env ''service-account.json'' SCOPES = Inr c
                  \<and> refresh env c = Inl e)"
      and "args_message a = Some ''common-message'' \<or> args_message a = Some ''override-message''"
      and "args_use_http a = token"
  shows "fst (get_access_token env w) = Inl e
       \<and> fst (send_fcm_message env M token w) = Inl e
       \<and> (\<exists>evs. trace (snd (send_fcm_message env M token w)) =
                   trace w @ FromServiceAccountFile ''service-account.json'' SCOPES # evs
                \<and> (evs = [] \<or> (\<exists>c. evs = [Refresh c])))
       \<and> fst (main env a w) = Inl e
       \<and> list_all (\<lambda>ev. \<not> is_post ev) (drop (length (trace w)) (trace (snd (main env a w))))"
proof -
  have g: "fst (get_access_token env w) = Inl e"
    using assms(2) by (auto simp: get_access_token_def Let_def)
  have gt: "\<And>w. \<exists>evs. get_access_token env w =
              (Inl e, w\<lparr>trace := trace w @
                 FromServiceAccountFile ''service-account.json'' SCOPES # evs\<rparr>)
            \<and> (evs = [] \<or> (\<exists>c. evs = [Refresh c]))"
    using assms(2) by (auto simp: get_access_token_def Let_def emit_def)
  have s: "\<And>M w. \<exists>evs. send_fcm_message env M token w =
              (Inl e, w\<lparr>trace := trace w @
                 FromServiceAccountFile ''service-account.json'' SCOPES # evs\<rparr>)
            \<and> (evs = [] \<or> (\<exists>c. evs = [Refresh c]))"
  proof -
    fix M w
    obtain evs where "get_access_token env w =
              (Inl e, w\<lparr>trace := trace w @
                 FromServiceAccountFile ''service-account.json'' SCOPES # evs\<rparr>)"
        "evs = [] \<or> (\<exists>c. evs = [Refresh c])"
      using gt [of w] by blast
    then show "\<exists>evs. send_fcm_message env M token w =
              (Inl e, w\<lparr>trace := trace w @
                 FromServiceAccountFile ''service-account.json'' SCOPES # evs\<rparr>)
            \<and> (evs = [] \<or> (\<exists>c. evs = [Refresh c]))"
      using assms(1) by (auto simp: send_fcm_message_def resolve_auth_falsy)
  qed
  have s1: "fst (send_fcm_message env M token w) = Inl e"
    using s [of M w] by auto
  have s2: "\<exists>evs. trace (snd (send_fcm_message env M token w)) =
                   trace w @ FromServiceAccountFile ''service-account.json'' SCOPES # evs
                \<and> (evs = [] \<or> (\<exists>c. evs = [Refresh c]))"
    using s [of M w] by auto
  have m: "\<exists>M w2 pr. main env a w = send_fcm_message env M token w2
              \<and> trace w2 = trace w @ pr \<and> list_all is_print pr"
  proof (cases "args_message a = Some ''common-message''")
    case True
    let ?M = "build_common_message (py_str (args_token a)) (\<not> truthy (args_use_http a))"
    let ?h = "Str ''FCM request body for message using common notification object:''"
    let ?b = "Str (json_dumps env ?M (Some 2))"
    have "main env a w = send_fcm_message env ?M token (py_print ?b (py_print ?h w))"
      using main_common [OF True] assms(4) by simp
    moreover have "trace (py_print ?b (py_print ?h w)) = trace w @ [Print ?h, Print ?b]"
      by simp
    moreover have "list_all is_print [Print ?h, Print ?b]"
      by simp
    ultimately show ?thesis by blast
  next
    case False
    with assms(3) have o: "args_message a = Some ''override-message''" by simp
    obtain body where b:
        "build_override_message (py_str (args_token a)) (\<not> truthy (args_use_http a)) = Inr body"
      using override_v1_succeeds assms(1,4) by auto
    let ?h = "Str ''FCM request body for override message:''"
    let ?b = "Str (json_dumps env body (Some 2))"
    have "main env a w = send_fcm_message env body token (py_print ?b (py_print ?h w))"
      using main_override [OF o b] assms(4) by simp
    moreover have "trace (py_print ?b (py_print ?h w)) = trace w @ [Print ?h, Print ?b]"
      by simp
    moreover have "list_all is_print [Print ?h, Print ?b]"
      by simp
    ultimately show ?thesis by blast
  qed
  then obtain M' w2 pr where m': "main env a w = send_fcm_message env M' token w2"
     "trace w2 = trace w @ pr" "list_all is_print pr" by blast
  have m1: "fst (main env a w) = Inl e"
    using m' s [of M' w2] by auto
  have m2: "list_all (\<lambda>ev. \<not> is_post ev) (drop (length (trace w)) (trace (snd (main env a w))))"
  proof -
    obtain evs where "trace (snd (main env a w)) =
         trace w @ pr @ FromServiceAccountFile ''service-account.json'' SCOPES # evs"
       "evs = [] \<or> (\<exists>c. evs = [Refresh c])"
      using m' s [of M' w2] by auto
    moreover have "list_all (\<lambda>ev. \<not> is_post ev) pr"
      using m'(3) by (induction pr) (auto elim: is_print.elims)
    ultimately show ?thesis by auto
  qed
  from g s1 s2 m1 m2 show ?thesis by blast
qed

theorem credential_failure_propagates_witness:
  "\<not> truthy None
   \<and> from_service_account_file env_no_key_file ''service-account.json'' SCOPES =
       Inl (External ''FileNotFoundError'')
   \<and> args_message (args_example (Some ''override-message'') None) = Some ''override-message''
   \<and> args_use_http (args_example (Some ''override-message'') None) = None
   \<and> fst (get_access_token env_no_key_file module_loaded) = Inl (External ''FileNotFoundError'')
   \<and> send_fcm_message env_no_key_file (build_common_message (JStr ''device-1'') True) None
        module_loaded =
       (Inl (External ''FileNotFoundError''),
        module_loaded\<lparr>trace :=
          [FromServiceAccountFile ''service-account.json''
             [''https://www.googleapis.com/auth/firebase.messaging'']]\<rparr>)
   \<and> fst (main env_no_key_file (args_example (Some ''override-message'') None) module_loaded) =
       Inl (External ''FileNotFoundError'')
   \<and> trace (snd (main env_no_key_file (args_example (Some ''override-message'') None)
        module_loaded)) =
       [Print (Str ''FCM request body for override message:''),
        Print (Str ''<indented>''),
        FromServiceAccountFile ''service-account.json''
          [''https://www.googleapis.com/auth/firebase.messaging'']]
   \<and> from_service_account_file env_refresh_fails ''service-account.json'' SCOPES =
       Inr (Credentials None)
   \<and> refresh env_refresh_fails (Credentials None) = Inl (External ''RefreshError'')
   \<and> main env_refresh_fails (args_example (Some ''common-message'') (Some [])) module_loaded =
       (Inl (External ''RefreshError''),
        module_loaded\<lparr>trace :=
          [Print (Str ''FCM request body for message using common notification object:''),
           Print (Str ''<indented>''),
           FromServiceAccountFile ''service-account.json''
             [''https://www.googleapis.com/auth/firebase.messaging''],
           Refresh (Credentials None)]\<rparr>)"
  using credential_failure_propagates
          [of None env_no_key_file "External ''FileNotFoundError''"
              "args_example (Some ''override-message'') None" module_loaded
              "build_common_message (JStr ''device-1'') True"]
        credential_failure_propagates
          [of "Some []" env_refresh_fails "External ''RefreshError''"
              "args_example (Some ''common-message'') (Some [])" module_loaded
              "build_common_message (JStr ''device-1'') True"]
  by (simp add: example_defs run_defs SCOPES_def build_override_message_def
        build_common_message_def setitem2_def)

section \<open>The command line front end\<close>

text \<open>
  C8. For every value of \<^verbatim>\<open>--message\<close> other than \<^verbatim>\<open>common-message\<close> and
  \<^verbatim>\<open>override-message\<close>, an absent one included, \<^verbatim>\<open>main\<close> returns normally, and all it does
  is print the usage text: no library call, no request, \<^verbatim>\<open>FCM_URL\<close> unchanged.
\<close>

theorem main_usage:
  assumes "args_message a \<noteq> Some ''common-message''"
      and "args_message a \<noteq> Some ''override-message''"
  shows "main env a w =
           (Inr (),
            w\<lparr>trace := trace w @ [Print (Str
              ''Invalid command. Please use one of the following commands:\<newline>python messaging.py --message=common-message\<newline>python messaging.py --message=override-message'')]\<rparr>)"
  using assms by (simp add: main_def usage_def py_print_def emit_def)

theorem main_usage_witness:
  "args_message (args_example (Some ''list-topics'') (Some ''ABC123'')) \<noteq> Some ''common-message''
   \<and> args_message (args_example (Some ''list-topics'') (Some ''ABC123'')) \<noteq>
       Some ''override-message''
   \<and> main env_example (args_example (Some ''list-topics'') (Some ''ABC123'')) module_loaded =
       (Inr (),
        module_loaded\<lparr>trace := [Print (Str
          ''Invalid command. Please use one of the following commands:\<newline>python messaging.py --message=common-message\<newline>python messaging.py --message=override-message'')]\<rparr>)
   \<and> main env_example (args_example None None) module_loaded =
       (Inr (),
        module_loaded\<lparr>trace := [Print (Str
          ''Invalid command. Please use one of the following commands:\<newline>python messaging.py --message=common-message\<newline>python messaging.py --message=override-message'')]\<rparr>)"
  using main_usage [of "args_example (Some ''list-topics'') (Some ''ABC123'')" env_example
                       module_loaded]
        main_usage [of "args_example None None" env_example module_loaded]
  by (simp add: args_example_def module_loaded_def)




section \<open>Purity of the builders\<close>

lemma those_map_mono:
  "those (map f xs) = Some ys \<Longrightarrow> (\<And>x y. x \<in> set xs \<Longrightarrow> f x = Some y \<Longrightarrow> g x = Some y)
   \<Longrightarrow> those (map g xs) = Some ys"
proof (induction xs arbitrary: ys)
  case Nil
  then show ?case by simp
next
  case (Cons x xs)
  then show ?case by (auto split: option.splits)
qed

lemma reify_fuel: "reify n h v = Some j \<Longrightarrow> reify (Suc n) h v = Some j"
proof (induction n arbitrary: v j)
  case 0
  then show ?case by (cases v) simp_all
next
  case (Suc n)
  show ?case
  proof (cases v)
    case (VRef a)
    with Suc.prems obtain kvs where a: "a < length h" and j: "j = JDict kvs"
      and t: "those (map (\<lambda>(k, v). map_option (Pair k) (reify n h v)) (h ! a)) = Some kvs"
      by (auto split: if_splits)
    have "those (map (\<lambda>(k, v). map_option (Pair k) (reify (Suc n) h v)) (h ! a)) = Some kvs"
      by (rule those_map_mono [OF t]) (auto dest: Suc.IH)
    with a j VRef show ?thesis by simp
  qed (use Suc.prems in simp_all)
qed

lemma reify_fuel_add: "reify n h v = Some j \<Longrightarrow> reify (n + m) h v = Some j"
  by (induction m) (simp_all add: reify_fuel)

lemma reify_append: "reify n h v = Some j \<Longrightarrow> reify n (h @ hs) v = Some j"
proof (induction n arbitrary: v j)
  case 0
  then show ?case by (cases v) simp_all
next
  case (Suc n)
  show ?case
  proof (cases v)
    case (VRef a)
    with Suc.prems obtain kvs where a: "a < length h" and j: "j = JDict kvs"
      and t: "those (map (\<lambda>(k, v). map_option (Pair k) (reify n h v)) (h ! a)) = Some kvs"
      by (auto split: if_splits)
    have "those (map (\<lambda>(k, v). map_option (Pair k) (reify n (h @ hs) v)) (h ! a)) = Some kvs"
      by (rule those_map_mono [OF t]) (auto dest: Suc.IH)
    with a j VRef show ?thesis by (simp add: nth_append)
  qed (use Suc.prems in simp_all)
qed

lemma reify_token:
  assumes "reify n h T = Some j"
  shows "reify (n + m) (h @ hs) T = Some j"
  by (rule reify_append) (rule reify_fuel_add [OF assms])

lemma build_common_message_h_v1:
  "build_common_message_h T True h =
     (VRef (length h + 2),
      h @ [[(''title'', VStr ''FCM Notification''), (''body'', VStr ''Notification from FCM'')],
           [(''token'', T), (''notification'', VRef (length h))],
           [(''message'', VRef (length h + 1))]])"
  by (simp add: build_common_message_h_def new_dict_def)

lemma build_common_message_h_legacy:
  "build_common_message_h T False h =
     (VRef (length h + 1),
      h @ [[(''title'', VStr ''FCM Notification''), (''body'', VStr ''Notification from FCM'')],
           [(''to'', T), (''data'', VRef (length h))]])"
  by (simp add: build_common_message_h_def new_dict_def)

lemma build_override_message_h_v1:
  "build_override_message_h T True h =
     (Inr (VRef (length h + 2)),
      h @ [[(''title'', VStr ''FCM Notification''), (''body'', VStr ''Notification from FCM'')],
           [(''token'', T), (''notification'', VRef (length h)),
            (''android'', VRef (length h + 8)), (''apns'', VRef (length h + 6))],
           [(''message'', VRef (length h + 1))],
           [(''badge'', VInt 1)],
           [(''aps'', VRef (length h + 3))],
           [(''apns-priority'', VStr ''10'')],
           [(''payload'', VRef (length h + 4)), (''headers'', VRef (length h + 5))],
           [(''click_action'', VStr ''android.intent.action.MAIN'')],
           [(''notification'', VRef (length h + 7))]])"
  by (simp add: build_override_message_h_def build_common_message_h_v1 new_dict_def
        nth_append list_update_append)

lemma common_h_reads_back:
  assumes "reify n h T = Some j"
  shows "\<exists>r hs. build_common_message_h T b h = (r, h @ hs)
           \<and> (\<forall>hs'. reify (Suc (Suc (Suc n))) (h @ hs @ hs') r = Some (build_common_message j b))"
proof (cases b)
  case True
  have t: "\<And>hs. reify (Suc n) (h @ hs) T = Some j"
    using reify_token [OF assms, of 1] by simp
  show ?thesis
    using True t
    by (simp add: build_common_message_h_v1 build_common_message_def nth_append)
next
  case False
  have t: "\<And>hs. reify (Suc (Suc n)) (h @ hs) T = Some j"
    using reify_token [OF assms, of 2] by simp
  show ?thesis
    using False t
    by (simp add: build_common_message_h_legacy build_common_message_def nth_append)
qed

lemma override_h_reads_back:
  assumes "reify n h T = Some j"
  shows "\<exists>r hs. build_override_message_h T True h = (Inr r, h @ hs)
           \<and> (\<forall>hs'. reify (Suc (Suc (Suc (Suc (Suc n))))) (h @ hs @ hs') r =
                 Some (JDict [(''message'', JDict
                   [(''token'', j),
                    (''notification'', JDict
                       [(''title'', JStr ''FCM Notification''),
                        (''body'', JStr ''Notification from FCM'')]),
                    (''android'', JDict
                       [(''notification'', JDict
                          [(''click_action'', JStr ''android.intent.action.MAIN'')])]),
                    (''apns'', JDict
                       [(''payload'', JDict [(''aps'', JDict [(''badge'', JInt 1)])]),
                        (''headers'', JDict [(''apns-priority'', JStr ''10'')])])])]))"
proof -
  have t: "\<And>hs. reify (Suc (Suc (Suc n))) (h @ hs) T = Some j"
    using reify_token [OF assms, of 3] by (simp add: numeral_3_eq_3)
  show ?thesis
    using t
    by (simp add: build_override_message_h_v1 nth_append)
qed

text \<open>
  C10. The builders on the heap of objects: the target token \<open>T\<close> reads back as the JSON
  value \<open>j\<close> in the heap \<open>h\<close>. Each call only appends new objects to the heap it is given, so
  no object that existed before the call is changed. Two calls in a row with the same
  arguments return results that read back as the same JSON value, the one the value-level
  builder computes from \<open>j\<close> and the flag alone, and the first result still reads back the
  same after the second call. The builders are given the heap only: they have no access to
  the trace of prints and library calls, nor to \<^verbatim>\<open>FCM_URL\<close>, as in the source, where they
  neither print nor call a library nor name a global.
\<close>

theorem builders_pure:
  assumes "reify n h T = Some j"
  shows "(\<exists>r1 hs1 r2 hs2.
            build_common_message_h T b h = (r1, h @ hs1)
          \<and> build_common_message_h T b (h @ hs1) = (r2, h @ hs1 @ hs2)
          \<and> reify (n + 3) (h @ hs1) r1 = Some (build_common_message j b)
          \<and> reify (n + 3) (h @ hs1 @ hs2) r2 = Some (build_common_message j b)
          \<and> reify (n + 3) (h @ hs1 @ hs2) r1 = Some (build_common_message j b))
       \<and> (\<exists>r1 hs1 r2 hs2.
            build_override_message_h T True h = (Inr r1, h @ hs1)
          \<and> build_override_message_h T True (h @ hs1) = (Inr r2, h @ hs1 @ hs2)
          \<and> map_option Inr (reify (n + 5) (h @ hs1) r1) = Some (build_override_message j True)
          \<and> map_option Inr (reify (n + 5) (h @ hs1 @ hs2) r2) =
               Some (build_override_message j True)
          \<and> map_option Inr (reify (n + 5) (h @ hs1 @ hs2) r1) =
               Some (build_override_message j True))"
proof
  have f: "n + 3 = Suc (Suc (Suc n))" by simp
  obtain r1 hs1 where 1: "build_common_message_h T b h = (r1, h @ hs1)"
      and r1: "\<And>hs'. reify (n + 3) (h @ hs1 @ hs') r1 = Some (build_common_message j b)"
    using common_h_reads_back [OF assms, of b] unfolding f by blast
  have T1: "reify n (h @ hs1) T = Some j"
    by (rule reify_append [OF assms])
  obtain r2 hs2 where 2: "build_common_message_h T b (h @ hs1) = (r2, (h @ hs1) @ hs2)"
      and r2: "\<And>hs'. reify (n + 3) ((h @ hs1) @ hs2 @ hs') r2 = Some (build_common_message j b)"
    using common_h_reads_back [OF T1, of b] unfolding f by blast
  from 1 2 r1 [of "[]"] r1 [of hs2] r2 [of "[]"]
  show "\<exists>r1 hs1 r2 hs2.
            build_common_message_h T b h = (r1, h @ hs1)
          \<and> build_common_message_h T b (h @ hs1) = (r2, h @ hs1 @ hs2)
          \<and> reify (n + 3) (h @ hs1) r1 = Some (build_common_message j b)
          \<and> reify (n + 3) (h @ hs1 @ hs2) r2 = Some (build_common_message j b)
          \<and> reify (n + 3) (h @ hs1 @ hs2) r1 = Some (build_common_message j b)"
    by (intro exI [of _ r1] exI [of _ hs1] exI [of _ r2] exI [of _ hs2]) simp
next
  have f: "n + 5 = Suc (Suc (Suc (Suc (Suc n))))" by simp
  let ?body = "build_override_message j True"
  obtain r1 hs1 where 1: "build_override_message_h T True h = (Inr r1, h @ hs1)"
      and r1: "\<And>hs'. map_option Inr (reify (n + 5) (h @ hs1 @ hs') r1) = Some ?body"
    using override_h_reads_back [OF assms] unfolding f override_message_v1_value by auto
  have T1: "reify n (h @ hs1) T = Some j"
    by (rule reify_append [OF assms])
  obtain r2 hs2 where 2: "build_override_message_h T True (h @ hs1) = (Inr r2, (h @ hs1) @ hs2)"
      and r2: "\<And>hs'. map_option Inr (reify (n + 5) ((h @ hs1) @ hs2 @ hs') r2) = Some ?body"
    using override_h_reads_back [OF T1] unfolding f override_message_v1_value by auto
  from 1 2 r1 [of "[]"] r1 [of hs2] r2 [of "[]"]
  show "\<exists>r1 hs1 r2 hs2.
            build_override_message_h T True h = (Inr r1, h @ hs1)
          \<and> build_override_message_h T True (h @ hs1) = (Inr r2, h @ hs1 @ hs2)
          \<and> map_option Inr (reify (n + 5) (h @ hs1) r1) = Some (build_override_message j True)
          \<and> map_option Inr (reify (n + 5) (h @ hs1 @ hs2) r2) =
               Some (build_override_message j True)
          \<and> map_option Inr (reify (n + 5) (h @ hs1 @ hs2) r1) =
               Some (build_override_message j True)"
    by (intro exI [of _ r1] exI [of _ hs1] exI [of _ r2] exI [of _ hs2]) simp
qed

theorem builders_pure_witness:
  "reify 0 [[(''unrelated'', VInt 7)]] (VStr ''device-1'') = Some (JStr ''device-1'')
   \<and> build_common_message_h (VStr ''device-1'') False [[(''unrelated'', VInt 7)]] =
       (VRef 2,
        [[(''unrelated'', VInt 7)],
         [(''title'', VStr ''FCM Notification''), (''body'', VStr ''Notification from FCM'')],
         [(''to'', VStr ''device-1''), (''data'', VRef 1)]])
   \<and> build_common_message_h (VStr ''device-1'') False
        [[(''unrelated'', VInt 7)],
         [(''title'', VStr ''FCM Notification''), (''body'', VStr ''Notification from FCM'')],
         [(''to'', VStr ''device-1''), (''data'', VRef 1)]] =
       (VRef 4,
        [[(''unrelated'', VInt 7)],
         [(''title'', VStr ''FCM Notification''), (''body'', VStr ''Notification from FCM'')],
         [(''to'', VStr ''device-1''), (''data'', VRef 1)],
         [(''title'', VStr ''FCM Notification''), (''body'', VStr ''Notification from FCM'')],
         [(''to'', VStr ''device-1''), (''data'', VRef 3)]])
   \<and> fst (build_override_message_h (VStr ''device-1'') True [[(''unrelated'', VInt 7)]]) =
       Inr (VRef 3)
   \<and> take 1 (snd (build_override_message_h (VStr ''device-1'') True
        [[(''unrelated'', VInt 7)]])) = [[(''unrelated'', VInt 7)]]"
  using builders_pure [of 0 "[[(''unrelated'', VInt 7)]]" "VStr ''device-1''" "JStr ''device-1''"
          False]
  by (simp add: build_common_message_h_def build_override_message_h_def new_dict_def)

end
